theory Spec2Isabelle
  imports Complex_Main "HOL-Library.Word"
begin

section \<open>JavaScript values used by the search component\<close>

text \<open>
  A JavaScript string is a sequence of UTF-16 code units: \<open>length\<close>, \<open>slice\<close> and
  \<open>trim\<close> all work on code units, so a string is a list of 16-bit words.
  \<open>js\<close> writes an ASCII literal of the source as such a list.
\<close>

type_synonym code_unit = "16 word"
type_synonym jsstring = "code_unit list"

definition js :: "string \<Rightarrow> jsstring" where
  "js s = map of_char s"

text \<open>
  \<open>String.prototype.trim\<close> strips the code units of the ECMAScript productions
  WhiteSpace (TAB, VT, FF, SP, NBSP, ZWNBSP and the category Zs) and LineTerminator
  (LF, CR, LS, PS) from both ends.
\<close>

definition isWhiteSpace :: "code_unit \<Rightarrow> bool" where
  "isWhiteSpace c \<longleftrightarrow>
     c \<in> {0x0009, 0x000A, 0x000B, 0x000C, 0x000D, 0x0020, 0x00A0, 0x1680,
          0x2028, 0x2029, 0x202F, 0x205F, 0x3000, 0xFEFF}
     \<or> (0x2000 \<le> c \<and> c \<le> 0x200A)"

definition trim :: "jsstring \<Rightarrow> jsstring" where
  "trim s = rev (dropWhile isWhiteSpace (rev (dropWhile isWhiteSpace s)))"

text \<open>
  The value \<open>JSON.parse\<close> returns. An object is its list of properties; a property
  read takes the first entry of a name. Numbers are the reals the doubles denote; no
  definition below does arithmetic on them.
\<close>

datatype json =
    JNull
  | JBool bool
  | JNumber real
  | JString jsstring
  | JArray "json list"
  | JObject "(jsstring \<times> json) list"

text \<open>
  What the \<open>catch\<close> clause can receive: an \<open>Error\<close> instance with its message, or
  any other thrown value (\<open>error instanceof Error\<close> is false).
\<close>

datatype thrown = ErrorObject jsstring | OtherValue

text \<open>\<open>ToBoolean\<close> on a parsed value: \<open>null\<close>, \<open>false\<close>, \<open>0\<close> and \<open>""\<close> are falsy.\<close>

fun truthy :: "json \<Rightarrow> bool" where
  "truthy JNull = False"
| "truthy (JBool b) = b"
| "truthy (JNumber n) = (n \<noteq> 0)"
| "truthy (JString s) = (s \<noteq> [])"
| "truthy (JArray xs) = True"
| "truthy (JObject props) = True"

text \<open>
  The property read \<open>data.results\<close>. On \<open>null\<close> it throws a \<open>TypeError\<close> (the message
  is the one V8 gives); on an object it is the property or \<open>undefined\<close> (\<open>None\<close>); on
  a boolean, number, string or array it is \<open>undefined\<close>, since no prototype has a
  property of that name.
\<close>

fun data_results :: "json \<Rightarrow> thrown + json option" where
  "data_results JNull =
     Inl (ErrorObject (js ''Cannot read properties of null (reading 'results')''))"
| "data_results (JObject props) = Inr (map_of props (js ''results''))"
| "data_results v = Inr None"

section \<open>The component's types and state\<close>

text \<open>\<open>type SearchMode = 'story' | 'personality' | 'resume'\<close>\<close>

datatype SearchMode = Story | Personality | Resume

fun mode_literal :: "SearchMode \<Rightarrow> jsstring" where
  "mode_literal Story = js ''story''"
| "mode_literal Personality = js ''personality''"
| "mode_literal Resume = js ''resume''"

text \<open>
  \<open>type SearchResult = { filename: string; score: number; story?: string;
  personality?: string; rawText?: string }\<close>
\<close>

record SearchResult =
  filename :: jsstring
  score :: real
  story :: "jsstring option"
  personality :: "jsstring option"
  rawText :: "jsstring option"

text \<open>
  The \<open>useState\<close> cells of \<open>ResumeSearch\<close>. \<open>results\<close> holds whatever
  \<open>setResults\<close> was given: the component stores \<open>data.results\<close> unchecked.
\<close>

record state =
  mode :: SearchMode
  query :: jsstring
  results :: json
  loading :: bool
  error :: "jsstring option"
  expandedResults :: "nat set"
  savedCandidates :: "SearchResult list"
  selectedCandidate :: "SearchResult option"
  isModalOpen :: bool

definition initial_state :: state where
  "initial_state =
     \<lparr>mode = Story, query = [], results = JArray [], loading = False, error = None,
      expandedResults = {}, savedCandidates = [], selectedCandidate = None,
      isModalOpen = False\<rparr>"

section \<open>searchResumes\<close>

text \<open>
  The request handed to \<open>fetch\<close>: a POST to \<open>/search\<close> (below the base URL of the
  build) whose body is \<open>JSON.stringify(requestBody)\<close>; the model keeps the object
  that is serialised.
\<close>

record request =
  http_method :: jsstring
  path :: jsstring
  body :: json

text \<open>
  What the component reads of a response: \<open>response.ok\<close>, \<open>response.status\<close> and the
  awaited \<open>response.text()\<close>, which may reject.
\<close>

record response =
  ok :: bool
  status :: nat
  response_text :: "thrown + jsstring"

definition requestBody :: "jsstring \<Rightarrow> SearchMode \<Rightarrow> json" where
  "requestBody q m =
     JObject [(js ''query'', JString (trim q)), (js ''mode'', JString (mode_literal m))]"

definition search_request :: "jsstring \<Rightarrow> SearchMode \<Rightarrow> request" where
  "search_request q m =
     \<lparr>http_method = js ''POST'', path = js ''/search'', body = requestBody q m\<rparr>"

text \<open>
  The body of the \<open>try\<close> block after the request is built. \<open>fetch\<close> and
  \<open>JSON_parse\<close> are the browser's functions, taken as parameters; each may throw
  (\<open>Inl\<close>). The result is the thrown value that reaches \<open>catch\<close>, or the argument of
  \<open>setResults\<close>, \<open>data.results || []\<close>.
\<close>

definition try_block ::
  "(request \<Rightarrow> thrown + response) \<Rightarrow> (jsstring \<Rightarrow> thrown + json) \<Rightarrow> request
     \<Rightarrow> thrown + json" where
  "try_block fetch JSON_parse req =
     (case fetch req of
        Inl e \<Rightarrow> Inl e
      | Inr resp \<Rightarrow>
          (case response_text resp of
             Inl e \<Rightarrow> Inl e
           | Inr responseText \<Rightarrow>
               if \<not> ok resp then Inl (ErrorObject (js ''API Error: '' @ responseText))
               else
                 (case JSON_parse responseText of
                    Inl e \<Rightarrow> Inl e
                  | Inr data \<Rightarrow>
                      (case data_results data of
                         Inl e \<Rightarrow> Inl e
                       | Inr None \<Rightarrow> Inr (JArray [])
                       | Inr (Some v) \<Rightarrow> Inr (if truthy v then v else JArray [])))))"

text \<open>\<open>error instanceof Error ? error.message : 'An unknown error occurred'\<close>\<close>

fun error_message :: "thrown \<Rightarrow> jsstring" where
  "error_message (ErrorObject m) = m"
| "error_message OtherValue = js ''An unknown error occurred''"

text \<open>
  One run of \<open>searchResumes\<close> on the state of the render that scheduled it. It returns
  the state after the run and the requests given to \<open>fetch\<close>, in order. The run writes
  \<open>error\<close>, \<open>results\<close> and \<open>loading\<close> only.
\<close>

definition searchResumes ::
  "(request \<Rightarrow> thrown + response) \<Rightarrow> (jsstring \<Rightarrow> thrown + json) \<Rightarrow> state
     \<Rightarrow> state \<times> request list" where
  "searchResumes fetch JSON_parse s =
     (let s1 = s\<lparr>error := None\<rparr> in
      if trim (query s) = [] then (s1\<lparr>results := JArray []\<rparr>, [])
      else
        let s2 = s1\<lparr>loading := True\<rparr>;
            req = search_request (query s) (mode s);
            s3 = (case try_block fetch JSON_parse req of
                    Inr v \<Rightarrow> s2\<lparr>results := v\<rparr>
                  | Inl e \<Rightarrow> s2\<lparr>error := Some (error_message e), results := JArray []\<rparr>)
        in (s3\<lparr>loading := False\<rparr>, [req]))"

section \<open>Click handlers\<close>

definition toggleExpanded :: "nat \<Rightarrow> state \<Rightarrow> state" where
  "toggleExpanded index s =
     (let newExpanded = expandedResults s in
      s\<lparr>expandedResults :=
           (if index \<in> newExpanded then newExpanded - {index}
            else insert index newExpanded)\<rparr>)"

definition is_saved :: "SearchResult list \<Rightarrow> jsstring \<Rightarrow> bool" where
  \<comment> \<open>\<open>savedCandidates.some(saved => saved.filename === name)\<close>\<close>
  "is_saved saved name = list_ex (\<lambda>c. filename c = name) saved"

definition saveCandidate :: "SearchResult \<Rightarrow> state \<Rightarrow> state" where
  "saveCandidate candidate s =
     (if \<not> is_saved (savedCandidates s) (filename candidate)
      then s\<lparr>savedCandidates := savedCandidates s @ [candidate]\<rparr>
      else s)"

definition removeCandidate :: "jsstring \<Rightarrow> state \<Rightarrow> state" where
  "removeCandidate name s =
     s\<lparr>savedCandidates :=
          filter (\<lambda>candidate. filename candidate \<noteq> name) (savedCandidates s)\<rparr>"

text \<open>The bookmark button of a result card: it removes a saved candidate and saves a new one.\<close>

definition bookmark_click :: "SearchResult \<Rightarrow> state \<Rightarrow> state" where
  "bookmark_click result s =
     (let isSaved = is_saved (savedCandidates s) (filename result) in
      if isSaved then removeCandidate (filename result) s else saveCandidate result s)"

text \<open>The two View Details buttons, and the modal's close button.\<close>

definition view_details_click :: "SearchResult \<Rightarrow> state \<Rightarrow> state" where
  "view_details_click candidate s = s\<lparr>selectedCandidate := Some candidate, isModalOpen := True\<rparr>"

definition onClose :: "state \<Rightarrow> state" where
  "onClose s = s\<lparr>isModalOpen := False\<rparr>"

section \<open>Rendering\<close>

datatype toggle_label = ShowMore | ShowLess

record content_view =
  markdown :: jsstring
  toggle :: "toggle_label option"

text \<open>
  \<open>renderResultContent\<close>: \<open>None\<close> is the \<open>null\<close> it returns for falsy content
  (an absent field or the empty string); \<open>markdown\<close> is the child of
  \<open>ReactMarkdown\<close>, \<open>toggle\<close> the button after it.
\<close>

definition renderResultContent :: "state \<Rightarrow> SearchResult \<Rightarrow> nat \<Rightarrow> content_view option" where
  "renderResultContent s result index =
     (let isExpanded = index \<in> expandedResults s;
          content = (case mode s of
                       Story \<Rightarrow> story result
                     | Personality \<Rightarrow> personality result
                     | Resume \<Rightarrow> rawText result)
      in case content of
           None \<Rightarrow> None
         | Some c \<Rightarrow>
             if c = [] then None
             else
               let truncatedContent =
                     (if length c > 400 \<and> \<not> isExpanded then take 400 c @ js ''...'' else c)
               in Some \<lparr>markdown = truncatedContent,
                         toggle = (if length c > 400
                                   then Some (if isExpanded then ShowLess else ShowMore)
                                   else None)\<rparr>)"

record modal_view =
  modal_title :: jsstring
  sections :: "(jsstring \<times> jsstring) list"

text \<open>\<open>{candidate.field && (<div><h3>heading</h3> ... {candidate.field} ...</div>)}\<close>\<close>

definition text_section :: "jsstring \<Rightarrow> jsstring option \<Rightarrow> (jsstring \<times> jsstring) list" where
  "text_section heading field =
     (case field of None \<Rightarrow> [] | Some t \<Rightarrow> if t = [] then [] else [(heading, t)])"

text \<open>
  \<open>Modal\<close>: the title and the sections it shows, each a heading with its text, in
  the order of the source.
\<close>

definition Modal :: "bool \<Rightarrow> SearchResult option \<Rightarrow> modal_view option" where
  "Modal isOpen candidate =
     (case candidate of
        None \<Rightarrow> None
      | Some c \<Rightarrow>
          if \<not> isOpen then None
          else Some \<lparr>modal_title = filename c,
                     sections =
                       text_section (js ''Resume + Story + Personality'') (rawText c)
                       @ text_section (js ''Personality'') (personality c)
                       @ text_section (js ''Story'') (story c)\<rparr>)"

text \<open>
  The earlier version of the component has no modal: it draws the same title and
  sections in a side panel, guarded by \<open>selectedCandidate && (...)\<close>.
\<close>

definition details_panel :: "SearchResult option \<Rightarrow> modal_view option" where
  "details_panel selected =
     (case selected of
        None \<Rightarrow> None
      | Some c \<Rightarrow>
          Some \<lparr>modal_title = filename c,
                sections =
                  text_section (js ''Resume + Story + Personality'') (rawText c)
                  @ text_section (js ''Personality'') (personality c)
                  @ text_section (js ''Story'') (story c)\<rparr>)"

text \<open>
  The stored \<open>results\<close> read at the declared type \<open>SearchResult[]\<close>: the properties
  the component reads, by the names it reads them under. A \<open>null\<close> text field behaves
  as an absent one everywhere it is used. \<open>None\<close> is a value outside the declared
  type, for which rendering is not modelled.
\<close>

fun optional_text :: "json option \<Rightarrow> jsstring option option" where
  "optional_text None = Some None"
| "optional_text (Some JNull) = Some None"
| "optional_text (Some (JString t)) = Some (Some t)"
| "optional_text (Some v) = None"

definition as_SearchResult :: "json \<Rightarrow> SearchResult option" where
  "as_SearchResult v =
     (case v of
        JObject props \<Rightarrow>
          (case (map_of props (js ''filename''), map_of props (js ''score''),
                 optional_text (map_of props (js ''story'')),
                 optional_text (map_of props (js ''personality'')),
                 optional_text (map_of props (js ''rawText''))) of
             (Some (JString f), Some (JNumber n), Some st, Some pe, Some rt) \<Rightarrow>
               Some \<lparr>filename = f, score = n, story = st, personality = pe, rawText = rt\<rparr>
           | _ \<Rightarrow> None)
      | _ \<Rightarrow> None)"

definition as_SearchResults :: "json \<Rightarrow> SearchResult list option" where
  "as_SearchResults v =
     (case v of JArray xs \<Rightarrow> those (map as_SearchResult xs) | _ \<Rightarrow> None)"

record card =
  card_title :: jsstring
  card_score :: real
  bookmarked :: bool
  card_body :: "content_view option"

definition result_card :: "state \<Rightarrow> SearchResult \<Rightarrow> nat \<Rightarrow> card" where
  "result_card s result index =
     \<lparr>card_title = filename result, card_score = score result,
      bookmarked = is_saved (savedCandidates s) (filename result),
      card_body = renderResultContent s result index\<rparr>"

datatype main_area = Spinner | Cards "card list"

record view =
  error_banner :: "jsstring option"
  main :: main_area
  saved_panel :: "jsstring list option"
  modal :: "modal_view option"

text \<open>
  What \<open>ResumeSearch\<close> returns, without the mode buttons and the input: the banner of
  \<open>{error && ...}\<close>, the spinner or the result cards, the saved-candidates panel and
  the modal.
\<close>

definition render :: "state \<Rightarrow> view option" where
  "render s =
     (let banner = (case error s of None \<Rightarrow> None | Some e \<Rightarrow> if e = [] then None else Some e);
          panel = (if length (savedCandidates s) > 0
                   then Some (map filename (savedCandidates s)) else None);
          dialog = Modal (isModalOpen s) (selectedCandidate s)
      in if loading s
         then Some \<lparr>error_banner = banner, main = Spinner, saved_panel = panel, modal = dialog\<rparr>
         else
           (case as_SearchResults (results s) of
              None \<Rightarrow> None
            | Some rs \<Rightarrow>
                Some \<lparr>error_banner = banner,
                      main = Cards (map (\<lambda>(index, result). result_card s result index)
                                     (enumerate 0 rs)),
                      saved_panel = panel, modal = dialog\<rparr>))"

section \<open>Events and the debounced effect\<close>

text \<open>
  The effect with dependencies \<open>[query, mode]\<close> runs after mounting and after each
  render in which \<open>query\<close> or \<open>mode\<close> changed: it clears the pending timer and
  sets a new one that runs \<open>searchResumes\<close>. \<open>timer_pending\<close> says whether a timer is
  set. Each handler runs on the state of the latest render, and a run of
  \<open>searchResumes\<close> is taken as one step.
\<close>

record ui =
  component :: state
  timer_pending :: bool

datatype event =
    SetMode SearchMode
  | SetQuery jsstring
  | ToggleExpanded nat
  | ViewDetails SearchResult
  | BookmarkClick SearchResult
  | RemoveSaved jsstring
  | CloseModal
  | TimerFires "request \<Rightarrow> thrown + response"

definition initial_ui :: ui where
  "initial_ui = \<lparr>component = initial_state, timer_pending = True\<rparr>"

fun handle :: "event \<Rightarrow> state \<Rightarrow> state" where
  "handle (SetMode m) s = s\<lparr>mode := m\<rparr>"
| "handle (SetQuery q) s = s\<lparr>query := q\<rparr>"
| "handle (ToggleExpanded index) s = toggleExpanded index s"
| "handle (ViewDetails candidate) s = view_details_click candidate s"
| "handle (BookmarkClick result) s = bookmark_click result s"
| "handle (RemoveSaved name) s = removeCandidate name s"
| "handle CloseModal s = onClose s"
| "handle (TimerFires fetch) s = s"

definition step :: "(jsstring \<Rightarrow> thrown + json) \<Rightarrow> event \<Rightarrow> ui \<Rightarrow> ui \<times> request list" where
  "step JSON_parse ev u =
     (case ev of
        TimerFires fetch \<Rightarrow>
          if timer_pending u
          then (let (s', reqs) = searchResumes fetch JSON_parse (component u)
                in (\<lparr>component = s', timer_pending = False\<rparr>, reqs))
          else (u, [])
      | _ \<Rightarrow>
          (let s' = handle ev (component u) in
           (\<lparr>component = s',
             timer_pending =
               (timer_pending u \<or> query s' \<noteq> query (component u)
                \<or> mode s' \<noteq> mode (component u))\<rparr>, [])))"

fun run :: "(jsstring \<Rightarrow> thrown + json) \<Rightarrow> event list \<Rightarrow> ui \<Rightarrow> ui \<times> request list" where
  "run JSON_parse [] u = (u, [])"
| "run JSON_parse (ev # evs) u =
     (let (u1, reqs1) = step JSON_parse ev u;
          (u2, reqs2) = run JSON_parse evs u1
      in (u2, reqs1 @ reqs2))"

section \<open>The search service behind the API\<close>

text \<open>
  The service that answers \<open>POST /search\<close> and the vector store it queries are not
  among the sources; the definitions of this section follow sections 4.3 and 4.4 of
  the specification. The similarity metric and the embedding call are parameters.
\<close>

text \<open>
  Modelled from the spec: the names of the three vectors a point may carry (section
  4.3) and a vector as a list of numbers; the store's schema is missing from the
  sources.
\<close>

datatype vector_name = story_vector | personality_vector | resume_vector

type_synonym vector = "real list"

text \<open>
  Modelled from the spec: the non-vector fields of a Candidate Record (section 3), the
  payload of a point. The store and its records are missing from the sources.
\<close>

record payload =
  payload_filename :: string
  raw_text :: string
  story_text :: "string option"
  personality_text :: "string option"

text \<open>
  Modelled from the spec: a point of the collection (section 4.3) with a unique key, a
  payload and up to three named vectors. The vector store is missing from the sources.
\<close>

record point =
  point_id :: string
  point_payload :: payload
  named_vectors :: "vector_name \<Rightarrow> vector option"

text \<open>
  Modelled from the spec: one element of the sequence \<open>search\<close> returns (section 4.3),
  the matched point with its score. The vector store is missing from the sources.
\<close>

record hit =
  hit_point :: point
  hit_score :: real

text \<open>
  Modelled from the spec: scoring one point against the named vector (section 4.3):
  the query vector is compared with that vector only, and a point without it gives no
  hit. The vector store's search is missing from the sources.
\<close>

definition score_point ::
  "(vector \<Rightarrow> vector \<Rightarrow> real) \<Rightarrow> vector_name \<Rightarrow> vector \<Rightarrow> point \<Rightarrow> hit option" where
  "score_point similarity vname query_vector p =
     (case named_vectors p vname of
        None \<Rightarrow> None
      | Some v \<Rightarrow> Some \<lparr>hit_point = p, hit_score = similarity query_vector v\<rparr>)"

text \<open>
  Modelled from the spec: \<open>search(vector_name, query_vector, limit, score_threshold?)\<close>
  of the Vector Store Manager (section 4.3), missing from the sources: hits ordered by
  descending similarity, ties in insertion order, at most \<open>limit\<close> of them.
\<close>

definition store_search ::
  "(vector \<Rightarrow> vector \<Rightarrow> real) \<Rightarrow> point list \<Rightarrow> vector_name \<Rightarrow> vector \<Rightarrow> nat \<Rightarrow> real option
     \<Rightarrow> hit list" where
  "store_search similarity points vname query_vector limit score_threshold =
     (let scored = List.map_filter (score_point similarity vname query_vector) points;
          kept = (case score_threshold of
                    None \<Rightarrow> scored
                  | Some t \<Rightarrow> filter (\<lambda>h. t \<le> hit_score h) scored)
      in take limit (sort_key (\<lambda>h. - hit_score h) kept))"

text \<open>
  Modelled from the spec: the mapping of mode to vector name of the Query Router
  (section 4.4), missing from the sources.
\<close>

fun vector_of_mode :: "SearchMode \<Rightarrow> vector_name" where
  "vector_of_mode Story = story_vector"
| "vector_of_mode Personality = personality_vector"
| "vector_of_mode Resume = resume_vector"

text \<open>
  Modelled from the spec: one record of the response of the Search API (section 6),
  \<open>{filename, score, story?, personality?, raw_text?}\<close>. The service that builds it is
  missing from the sources.
\<close>

record api_result =
  api_filename :: string
  api_score :: real
  api_story :: "string option"
  api_personality :: "string option"
  api_raw_text :: "string option"

text \<open>
  Modelled from the spec: assembling one result from a hit (section 4.4), with all
  three text fields of the payload that are present. The Query Router is missing from
  the sources.
\<close>

definition assemble :: "hit \<Rightarrow> api_result" where
  "assemble h =
     (let pl = point_payload (hit_point h) in
      \<lparr>api_filename = payload_filename pl, api_score = hit_score h,
       api_story = story_text pl, api_personality = personality_text pl,
       api_raw_text = Some (raw_text pl)\<rparr>)"

text \<open>
  Modelled from the spec: the failure of the embedding call on which a search request
  fails (sections 5 and 7); the service is missing from the sources.
\<close>

datatype service_error = EmbeddingFailed

text \<open>
  Modelled from the spec: an empty or whitespace-only \<open>query_text\<close> (section 4.4); the
  service that tests it is missing from the sources.
\<close>

definition blank :: "string \<Rightarrow> bool" where
  "blank t = list_all (\<lambda>c. c \<in> {CHR '' '', CHR 0x09, CHR 0x0A, CHR 0x0B, CHR 0x0C, CHR 0x0D}) t"

text \<open>
  Modelled from the spec: the Query Router / Search Service (section 4.4), missing from
  the sources. A query of whitespace only gives no results and is not embedded;
  otherwise the query is embedded and the store searched on the vector of the mode
  with a fixed limit \<open>top_k\<close> and no threshold.
\<close>

definition search_service ::
  "(string \<Rightarrow> vector option) \<Rightarrow> (vector \<Rightarrow> vector \<Rightarrow> real) \<Rightarrow> nat \<Rightarrow> point list
     \<Rightarrow> string \<Rightarrow> SearchMode \<Rightarrow> service_error + api_result list" where
  "search_service embed_text similarity top_k points query_text m =
     (if blank query_text then Inr []
      else
        (case embed_text query_text of
           None \<Rightarrow> Inl EmbeddingFailed
         | Some query_vector \<Rightarrow>
             Inr (map assemble
                   (store_search similarity points (vector_of_mode m) query_vector top_k None))))"

section \<open>Trimming\<close>

lemma dropWhile_fixed: "xs \<noteq> [] \<Longrightarrow> \<not> P (hd xs) \<Longrightarrow> dropWhile P xs = xs"
  by (cases xs) auto

lemma dropWhile_all: "(\<forall>x\<in>set (dropWhile P xs). P x) \<longleftrightarrow> (\<forall>x\<in>set xs. P x)"
proof
  assume all: "\<forall>x\<in>set (dropWhile P xs). P x"
  have "dropWhile P xs = []"
  proof (rule ccontr)
    assume ne: "dropWhile P xs \<noteq> []"
    then have "\<not> P (hd (dropWhile P xs))" by (rule hd_dropWhile)
    moreover have "hd (dropWhile P xs) \<in> set (dropWhile P xs)" using ne by (rule hd_in_set)
    ultimately show False using all by blast
  qed
  then show "\<forall>x\<in>set xs. P x" by (simp only: dropWhile_eq_Nil_conv)
next
  assume "\<forall>x\<in>set xs. P x"
  then show "\<forall>x\<in>set (dropWhile P xs). P x" by (auto dest: set_dropWhileD)
qed

lemma trim_Nil_iff: "trim s = [] \<longleftrightarrow> (\<forall>c\<in>set s. isWhiteSpace c)"
  by (simp add: trim_def dropWhile_all)

lemma last_dropWhile_keep: "dropWhile P xs \<noteq> [] \<Longrightarrow> last (dropWhile P xs) = last xs"
  by (induction xs) (auto split: if_splits)

lemma trim_hd: "trim s \<noteq> [] \<Longrightarrow> \<not> isWhiteSpace (hd (trim s))"
proof -
  assume ne: "trim s \<noteq> []"
  let ?a = "dropWhile isWhiteSpace s"
  let ?b = "dropWhile isWhiteSpace (rev ?a)"
  have b: "?b \<noteq> []" using ne unfolding trim_def by (simp only: rev_is_Nil_conv not_False_eq_True)
  have a: "?a \<noteq> []"
  proof
    assume "?a = []"
    then have "?b = []" by (simp only: rev.simps dropWhile.simps)
    with b show False by contradiction
  qed
  have "\<not> isWhiteSpace (hd ?a)" using a by (rule hd_dropWhile)
  moreover have "hd (trim s) = last ?b" unfolding trim_def using b by (simp only: hd_rev)
  moreover have "last ?b = last (rev ?a)" using b by (rule last_dropWhile_keep)
  moreover have "last (rev ?a) = hd ?a" using a by (simp only: last_rev)
  ultimately show ?thesis by simp
qed

lemma trim_last: "trim s \<noteq> [] \<Longrightarrow> \<not> isWhiteSpace (last (trim s))"
proof -
  assume ne: "trim s \<noteq> []"
  let ?b = "dropWhile isWhiteSpace (rev (dropWhile isWhiteSpace s))"
  have b: "?b \<noteq> []" using ne unfolding trim_def by (simp only: rev_is_Nil_conv not_False_eq_True)
  have "last (trim s) = hd ?b" unfolding trim_def using b by (simp only: last_rev)
  moreover have "\<not> isWhiteSpace (hd ?b)" using b by (rule hd_dropWhile)
  ultimately show ?thesis by simp
qed

lemma trim_idem: "trim (trim s) = trim s"
proof (cases "trim s = []")
  case True
  have "trim [] = []" by (simp add: trim_def)
  with True show ?thesis by simp
next
  case False
  have 1: "dropWhile isWhiteSpace (trim s) = trim s"
    using False trim_hd [OF False] by (rule dropWhile_fixed)
  have "rev (trim s) \<noteq> []" using False by simp
  moreover have "\<not> isWhiteSpace (hd (rev (trim s)))"
    using False trim_last [OF False] by (simp add: hd_rev)
  ultimately have 2: "dropWhile isWhiteSpace (rev (trim s)) = rev (trim s)"
    by (rule dropWhile_fixed)
  have "trim (trim s) = rev (dropWhile isWhiteSpace (rev (dropWhile isWhiteSpace (trim s))))"
    by (simp only: trim_def)
  also have "\<dots> = rev (rev (trim s))" by (simp only: 1 2)
  finally show ?thesis by simp
qed

section \<open>Facts about one run of searchResumes\<close>


lemma searchResumes_requests:
  "snd (searchResumes fetch JSON_parse s) =
     (if trim (query s) = [] then [] else [search_request (query s) (mode s)])"
  by (simp add: searchResumes_def Let_def)


lemma searchResumes_success:
  assumes "trim (query s) \<noteq> []"
    and "try_block fetch JSON_parse (search_request (query s) (mode s)) = Inr v"
  shows "fst (searchResumes fetch JSON_parse s) =
           s\<lparr>error := None, results := v, loading := False\<rparr>"
  using assms by (simp add: searchResumes_def Let_def)

lemma render_empty_results:
  assumes "results s = JArray []" and "\<not> loading s"
  shows "\<exists>v. render s = Some v \<and> main v = Cards []
           \<and> error_banner v = (case error s of None \<Rightarrow> None
                                 | Some e \<Rightarrow> if e = [] then None else Some e)"
  using assms by (simp add: render_def as_SearchResults_def Let_def)






lemma try_block_parsed:
  "fetch req = Inr resp \<Longrightarrow> response_text resp = Inr t \<Longrightarrow> ok resp \<Longrightarrow> JSON_parse t = Inr data \<Longrightarrow>
   try_block fetch JSON_parse req =
     (case data_results data of
        Inl e \<Rightarrow> Inl e
      | Inr None \<Rightarrow> Inr (JArray [])
      | Inr (Some v) \<Rightarrow> Inr (if truthy v then v else JArray []))"
  by (simp add: try_block_def)


lemma render_after_empty_success:
  assumes "trim (query s) \<noteq> []"
    and "try_block fetch JSON_parse (search_request (query s) (mode s)) = Inr (JArray [])"
  shows "error (fst (searchResumes fetch JSON_parse s)) = None
         \<and> results (fst (searchResumes fetch JSON_parse s)) = JArray []
         \<and> (\<exists>v. render (fst (searchResumes fetch JSON_parse s)) = Some v \<and> main v = Cards []
                \<and> error_banner v = None)"
proof -
  let ?s' = "fst (searchResumes fetch JSON_parse s)"
  have s': "?s' = s\<lparr>error := None, results := JArray [], loading := False\<rparr>"
    using assms by (rule searchResumes_success)
  have "\<exists>v. render ?s' = Some v \<and> main v = Cards []
           \<and> error_banner v = (case error ?s' of None \<Rightarrow> None
                                 | Some e \<Rightarrow> if e = [] then None else Some e)"
    by (rule render_empty_results) (simp_all add: s')
  then show ?thesis by (simp add: s')
qed


section \<open>Facts about rendering\<close>


section \<open>Facts about the requests of a run\<close>

lemma step_requests:
  "snd (step JSON_parse ev u) =
     (case ev of
        TimerFires fetch \<Rightarrow>
          if timer_pending u then snd (searchResumes fetch JSON_parse (component u)) else []
      | _ \<Rightarrow> [])"
  by (cases ev) (simp_all add: step_def Let_def split: prod.splits)

lemma run_requests_Cons:
  "snd (run JSON_parse (ev # evs) u) =
     snd (step JSON_parse ev u) @ snd (run JSON_parse evs (fst (step JSON_parse ev u)))"
  by (simp add: Let_def split: prod.splits)

lemma run_requests_pred:
  assumes "\<And>fetch s req. req \<in> set (snd (searchResumes fetch JSON_parse s)) \<Longrightarrow> P req"
  shows "\<forall>req\<in>set (snd (run JSON_parse evs u)). P req"
proof (induction evs arbitrary: u)
  case Nil
  show ?case by simp
next
  case (Cons ev evs)
  have "\<forall>req\<in>set (snd (step JSON_parse ev u)). P req"
    using assms by (cases ev) (auto simp add: step_requests)
  with Cons show ?case
    by (simp only: run_requests_Cons set_append) blast
qed

lemma mode_literal_range:
  "range mode_literal = {js ''story'', js ''personality'', js ''resume''}"
proof
  show "range mode_literal \<subseteq> {js ''story'', js ''personality'', js ''resume''}"
  proof
    fix l assume "l \<in> range mode_literal"
    then obtain m where "l = mode_literal m" by blast
    then show "l \<in> {js ''story'', js ''personality'', js ''resume''}"
      by (cases m) simp_all
  qed
next
  have "mode_literal Story \<in> range mode_literal" "mode_literal Personality \<in> range mode_literal"
    "mode_literal Resume \<in> range mode_literal"
    by (rule rangeI)+
  then show "{js ''story'', js ''personality'', js ''resume''} \<subseteq> range mode_literal"
    by simp
qed

lemma search_request_well_formed:
  assumes "req \<in> set (snd (searchResumes fetch JSON_parse s))"
  shows "\<exists>q m. body req = JObject [(js ''query'', JString q),
                                      (js ''mode'', JString (mode_literal m))]
           \<and> q \<noteq> [] \<and> trim q = q \<and> \<not> isWhiteSpace (hd q) \<and> \<not> isWhiteSpace (last q)"
proof -
  have ne: "trim (query s) \<noteq> []" and req: "req = search_request (query s) (mode s)"
    using assms by (simp_all add: searchResumes_requests split: if_splits)
  have "body req = JObject [(js ''query'', JString (trim (query s))),
                            (js ''mode'', JString (mode_literal (mode s)))]"
    by (simp add: req search_request_def requestBody_def)
  moreover have "trim (trim (query s)) = trim (query s)" by (rule trim_idem)
  moreover note ne trim_hd [OF ne] trim_last [OF ne]
  ultimately show ?thesis by blast
qed

section \<open>Facts about the saved candidates\<close>

lemma is_saved_iff: "is_saved saved name \<longleftrightarrow> name \<in> filename ` set saved"
  by (auto simp add: is_saved_def list_ex_iff)

lemma saveCandidate_distinct:
  "distinct (map filename (savedCandidates s)) \<Longrightarrow>
   distinct (map filename (savedCandidates (saveCandidate candidate s)))"
  by (simp add: saveCandidate_def is_saved_iff)

lemma removeCandidate_distinct:
  "distinct (map filename (savedCandidates s)) \<Longrightarrow>
   distinct (map filename (savedCandidates (removeCandidate name s)))"
  by (simp add: removeCandidate_def distinct_map_filter)

lemma bookmark_click_distinct:
  "distinct (map filename (savedCandidates s)) \<Longrightarrow>
   distinct (map filename (savedCandidates (bookmark_click result s)))"
  by (simp add: bookmark_click_def Let_def saveCandidate_distinct removeCandidate_distinct)

lemma handle_distinct:
  "distinct (map filename (savedCandidates s)) \<Longrightarrow>
   distinct (map filename (savedCandidates (handle ev s)))"
  by (cases ev)
     (simp_all add: toggleExpanded_def Let_def view_details_click_def onClose_def
        bookmark_click_distinct removeCandidate_distinct)

lemma searchResumes_savedCandidates:
  "savedCandidates (fst (searchResumes fetch JSON_parse s)) = savedCandidates s"
  by (simp add: searchResumes_def Let_def split: sum.splits)

lemma step_distinct:
  assumes "distinct (map filename (savedCandidates (component u)))"
  shows "distinct (map filename (savedCandidates (component (fst (step JSON_parse ev u)))))"
proof (cases ev)
  case (TimerFires fetch)
  have "savedCandidates (component (fst (step JSON_parse ev u))) = savedCandidates (component u)"
    using searchResumes_savedCandidates [of fetch JSON_parse "component u"]
    by (auto simp add: TimerFires step_def split: prod.splits)
  with assms show ?thesis by simp
qed (use assms handle_distinct in \<open>simp_all add: step_def Let_def del: handle.simps\<close>)

lemma run_state_Cons:
  "fst (run JSON_parse (ev # evs) u) = fst (run JSON_parse evs (fst (step JSON_parse ev u)))"
  by (simp add: Let_def split: prod.splits)

lemma run_distinct:
  "distinct (map filename (savedCandidates (component u))) \<Longrightarrow>
   distinct (map filename (savedCandidates (component (fst (run JSON_parse evs u)))))"
proof (induction evs arbitrary: u)
  case Nil
  then show ?case by simp
next
  case (Cons ev evs)
  from Cons.prems have "distinct (map filename (savedCandidates (component (fst (step JSON_parse ev u)))))"
    by (rule step_distinct)
  then show ?case
    unfolding run_state_Cons by (rule Cons.IH)
qed

section \<open>Facts about the modal and the vector store\<close>

lemma text_section_iff:
  "(h, t) \<in> set (text_section heading field) \<longleftrightarrow> h = heading \<and> field = Some t \<and> t \<noteq> []"
  by (auto simp add: text_section_def split: option.splits)

lemma set_map_filter: "set (List.map_filter f xs) = {y. \<exists>x\<in>set xs. f x = Some y}"
  by (induction xs) (auto simp add: List.map_filter_simps split: option.splits)

lemma store_search_hit:
  assumes "h \<in> set (store_search similarity points vname query_vector limit score_threshold)"
  shows "hit_point h \<in> set points
         \<and> (\<exists>v. named_vectors (hit_point h) vname = Some v
                \<and> hit_score h = similarity query_vector v)"
proof -
  have "h \<in> set (List.map_filter (score_point similarity vname query_vector) points)"
    using assms
    by (auto simp add: store_search_def Let_def split: option.splits dest: in_set_takeD)
  then obtain p where p: "p \<in> set points"
    and sp: "score_point similarity vname query_vector p = Some h"
    by (auto simp add: set_map_filter)
  from sp obtain v where "named_vectors p vname = Some v"
    and "h = \<lparr>hit_point = p, hit_score = similarity query_vector v\<rparr>"
    by (auto simp add: score_point_def split: option.splits)
  with p show ?thesis by simp
qed

section \<open>Empty queries\<close>

text \<open>
  C1. In every mode, a query that is empty or consists of whitespace only (so that
  it is empty after trimming) leaves an empty result list and no error, and no
  request is given to \<open>fetch\<close>, whatever \<open>fetch\<close> and \<open>JSON.parse\<close> would have
  done; the rest of the state is as before. The component makes no other external
  call, so nothing reaches the search API or an embedding service.
\<close>

theorem searchResumes_blank_query:
  assumes "\<forall>c\<in>set (query s). isWhiteSpace c"
  shows "results (fst (searchResumes fetch JSON_parse s)) = JArray []
         \<and> error (fst (searchResumes fetch JSON_parse s)) = None
         \<and> snd (searchResumes fetch JSON_parse s) = []
         \<and> fst (searchResumes fetch JSON_parse s) = s\<lparr>error := None, results := JArray []\<rparr>"
proof -
  have "trim (query s) = []"
    using assms by (simp only: trim_Nil_iff)
  then have "searchResumes fetch JSON_parse s = (s\<lparr>error := None, results := JArray []\<rparr>, [])"
    by (simp add: searchResumes_def)
  then show ?thesis by simp
qed

theorem searchResumes_blank_query_witness:
  "list_all isWhiteSpace (query (initial_state\<lparr>mode := Personality, query := js '' ''\<rparr>))
   \<and> results (fst (searchResumes (\<lambda>r. Inl OtherValue) (\<lambda>t. Inl OtherValue)
                     (initial_state\<lparr>mode := Personality, query := js '' ''\<rparr>))) = JArray []
   \<and> error (fst (searchResumes (\<lambda>r. Inl OtherValue) (\<lambda>t. Inl OtherValue)
                     (initial_state\<lparr>mode := Personality, query := js '' ''\<rparr>))) = None
   \<and> snd (searchResumes (\<lambda>r. Inl OtherValue) (\<lambda>t. Inl OtherValue)
             (initial_state\<lparr>mode := Personality, query := js '' ''\<rparr>)) = []"
proof -
  have blank: "\<forall>c\<in>set (query (initial_state\<lparr>mode := Personality, query := js '' ''\<rparr>)).
                 isWhiteSpace c"
    by (simp add: js_def isWhiteSpace_def)
  show ?thesis
    using blank searchResumes_blank_query [OF blank] by (simp add: list_all_iff)
qed

section \<open>The shape of the exchange\<close>




section \<open>Errors and empty results\<close>




section \<open>The body of a result card\<close>





section \<open>The requests that are sent\<close>

text \<open>
  C5. Every request sent, in any sequence of events from any state of the interface,
  carries a query text that is not empty and is trimmed (trimming it again changes
  nothing, and neither its first nor its last code unit is whitespace) and the literal
  of a mode; a run of \<open>searchResumes\<close> sends the trimmed query and the mode of its
  state, and only for a query that is not blank. The literals of the modes are
  exactly \<open>story\<close>, \<open>personality\<close> and \<open>resume\<close>, so no request with another mode
  can be built.
\<close>

theorem sent_requests_well_formed:
  "(\<forall>req\<in>set (snd (run JSON_parse evs u)).
      \<exists>q m. body req = JObject [(js ''query'', JString q),
                                  (js ''mode'', JString (mode_literal m))]
        \<and> q \<noteq> [] \<and> trim q = q \<and> \<not> isWhiteSpace (hd q) \<and> \<not> isWhiteSpace (last q))
   \<and> (\<forall>req\<in>set (snd (searchResumes fetch JSON_parse s)).
        trim (query s) \<noteq> []
        \<and> body req = JObject [(js ''query'', JString (trim (query s))),
                               (js ''mode'', JString (mode_literal (mode s)))])
   \<and> range mode_literal = {js ''story'', js ''personality'', js ''resume''}"
proof (intro conjI)
  show "\<forall>req\<in>set (snd (run JSON_parse evs u)).
      \<exists>q m. body req = JObject [(js ''query'', JString q),
                                  (js ''mode'', JString (mode_literal m))]
        \<and> q \<noteq> [] \<and> trim q = q \<and> \<not> isWhiteSpace (hd q) \<and> \<not> isWhiteSpace (last q)"
    by (rule run_requests_pred) (rule search_request_well_formed)
  show "\<forall>req\<in>set (snd (searchResumes fetch JSON_parse s)).
        trim (query s) \<noteq> []
        \<and> body req = JObject [(js ''query'', JString (trim (query s))),
                               (js ''mode'', JString (mode_literal (mode s)))]"
    by (simp add: searchResumes_requests search_request_def requestBody_def)
  show "range mode_literal = {js ''story'', js ''personality'', js ''resume''}"
    by (rule mode_literal_range)
qed

theorem sent_requests_well_formed_witness:
  "snd (run (\<lambda>t. Inl OtherValue)
          [SetQuery (js '' data engineer ''), SetMode Resume, TimerFires (\<lambda>r. Inl OtherValue)]
          initial_ui)
     = [\<lparr>http_method = js ''POST'', path = js ''/search'',
         body = JObject [(js ''query'', JString (js ''data engineer'')),
                         (js ''mode'', JString (js ''resume''))]\<rparr>]
   \<and> trim (js ''data engineer'') = js ''data engineer''"
  using sent_requests_well_formed
    [of "\<lambda>t. Inl OtherValue"
        "[SetQuery (js '' data engineer ''), SetMode Resume, TimerFires (\<lambda>r. Inl OtherValue)]"
        initial_ui "\<lambda>r. Inl OtherValue" initial_state]
  by (simp add: step_def Let_def initial_ui_def initial_state_def searchResumes_def
      search_request_def requestBody_def try_block_def trim_def js_def isWhiteSpace_def)

section \<open>Saved candidates\<close>

text \<open>
  C9. The saved-candidates list never holds two entries of one filename: it is so
  after every sequence of events from the initial interface, and \<open>saveCandidate\<close>,
  \<open>removeCandidate\<close>, the bookmark button, every other handler and a run of
  \<open>searchResumes\<close> each keep it so. \<open>saveCandidate\<close> leaves the state unchanged when a
  candidate of that filename is saved already, so saving twice is saving once, and
  \<open>removeCandidate\<close> removes every entry of the filename and nothing else.
\<close>

theorem savedCandidates_unique_filenames:
  "distinct (map filename (savedCandidates (component (fst (run JSON_parse evs initial_ui)))))
   \<and> (distinct (map filename (savedCandidates s)) \<longrightarrow>
        distinct (map filename (savedCandidates (saveCandidate candidate s)))
      \<and> distinct (map filename (savedCandidates (removeCandidate name s)))
      \<and> distinct (map filename (savedCandidates (bookmark_click candidate s)))
      \<and> distinct (map filename (savedCandidates (handle ev s)))
      \<and> distinct (map filename (savedCandidates (fst (searchResumes fetch JSON_parse s)))))
   \<and> (filename candidate \<in> filename ` set (savedCandidates s) \<longrightarrow> saveCandidate candidate s = s)
   \<and> saveCandidate candidate (saveCandidate candidate s) = saveCandidate candidate s
   \<and> name \<notin> filename ` set (savedCandidates (removeCandidate name s))
   \<and> set (savedCandidates (removeCandidate name s))
       = {c \<in> set (savedCandidates s). filename c \<noteq> name}"
proof (intro conjI impI)
  have "distinct (map filename (savedCandidates (component initial_ui)))"
    by (simp add: initial_ui_def initial_state_def)
  then show "distinct (map filename
                 (savedCandidates (component (fst (run JSON_parse evs initial_ui)))))"
    by (rule run_distinct)
next
  show "saveCandidate candidate (saveCandidate candidate s) = saveCandidate candidate s"
    by (simp add: saveCandidate_def is_saved_iff)
next
  assume "filename candidate \<in> filename ` set (savedCandidates s)"
  then show "saveCandidate candidate s = s"
    by (simp add: saveCandidate_def is_saved_iff)
next
  show "name \<notin> filename ` set (savedCandidates (removeCandidate name s))"
    by (auto simp add: removeCandidate_def)
next
  show "set (savedCandidates (removeCandidate name s))
       = {c \<in> set (savedCandidates s). filename c \<noteq> name}"
    by (simp add: removeCandidate_def)
qed (simp_all add: saveCandidate_distinct removeCandidate_distinct bookmark_click_distinct
       handle_distinct searchResumes_savedCandidates del: handle.simps)

theorem savedCandidates_unique_filenames_witness:
  "map filename (savedCandidates (component (fst (run (\<lambda>t. Inl OtherValue)
       [BookmarkClick \<lparr>filename = js ''a.txt'', score = 1 / 2, story = None, personality = None,
                        rawText = None\<rparr>,
        BookmarkClick \<lparr>filename = js ''b.txt'', score = 1 / 4, story = None, personality = None,
                        rawText = None\<rparr>,
        BookmarkClick \<lparr>filename = js ''a.txt'', score = 1 / 8, story = None, personality = None,
                        rawText = Some (js ''x'')\<rparr>]
       initial_ui))))
     = [js ''b.txt'']
   \<and> saveCandidate \<lparr>filename = js ''a.txt'', score = 1 / 8, story = None, personality = None,
                      rawText = Some (js ''x'')\<rparr>
        (initial_state\<lparr>savedCandidates :=
           [\<lparr>filename = js ''a.txt'', score = 1 / 2, story = None, personality = None,
             rawText = None\<rparr>]\<rparr>)
       = initial_state\<lparr>savedCandidates :=
           [\<lparr>filename = js ''a.txt'', score = 1 / 2, story = None, personality = None,
             rawText = None\<rparr>]\<rparr>
   \<and> savedCandidates (removeCandidate (js ''a.txt'')
        (initial_state\<lparr>savedCandidates :=
           [\<lparr>filename = js ''a.txt'', score = 1 / 2, story = None, personality = None,
             rawText = None\<rparr>]\<rparr>)) = []"
  using savedCandidates_unique_filenames
    [where JSON_parse = "\<lambda>t. Inl OtherValue"
       and evs = "[BookmarkClick \<lparr>filename = js ''a.txt'', score = 1 / 2, story = None,
                                   personality = None, rawText = None\<rparr>,
                   BookmarkClick \<lparr>filename = js ''b.txt'', score = 1 / 4, story = None,
                                   personality = None, rawText = None\<rparr>,
                   BookmarkClick \<lparr>filename = js ''a.txt'', score = 1 / 8, story = None,
                                   personality = None, rawText = Some (js ''x'')\<rparr>]"
       and s = "initial_state\<lparr>savedCandidates :=
           [\<lparr>filename = js ''a.txt'', score = 1 / 2, story = None, personality = None,
             rawText = None\<rparr>]\<rparr>"
       and candidate = "\<lparr>filename = js ''a.txt'', score = 1 / 8, story = None,
                          personality = None, rawText = Some (js ''x'')\<rparr>"
       and name = "js ''a.txt''" and ev = CloseModal and fetch = "\<lambda>r. Inl OtherValue"]
  by (simp add: step_def Let_def initial_ui_def initial_state_def bookmark_click_def
      saveCandidate_def removeCandidate_def is_saved_def js_def)

section \<open>The details of a candidate\<close>

text \<open>
  C6, as the code has it. The View Details button stores the candidate and opens the
  modal; it sends no request and sets no timer for one. The modal then shows the
  filename and one section for each text field of the stored result that holds a
  non-empty text, the raw text, the personality and the story, under its heading;
  a field that is absent or empty has no section. The side panel of the earlier
  version shows the same.
\<close>

theorem details_show_fetched_text_fields:
  "step JSON_parse (ViewDetails candidate) u
     = (\<lparr>component = (component u)\<lparr>selectedCandidate := Some candidate, isModalOpen := True\<rparr>,
         timer_pending = timer_pending u\<rparr>, [])
   \<and> (\<exists>v. Modal True (Some candidate) = Some v \<and> modal_title v = filename candidate
        \<and> (\<forall>h t. (h, t) \<in> set (sections v) \<longleftrightarrow>
              t \<noteq> []
              \<and> (h = js ''Resume + Story + Personality'' \<and> rawText candidate = Some t
                 \<or> h = js ''Personality'' \<and> personality candidate = Some t
                 \<or> h = js ''Story'' \<and> story candidate = Some t)))
   \<and> details_panel (Some candidate) = Modal True (Some candidate)"
proof (intro conjI)
  show "details_panel (Some candidate) = Modal True (Some candidate)"
    by (simp add: details_panel_def Modal_def)
  show "step JSON_parse (ViewDetails candidate) u
     = (\<lparr>component = (component u)\<lparr>selectedCandidate := Some candidate, isModalOpen := True\<rparr>,
         timer_pending = timer_pending u\<rparr>, [])"
    by (simp add: step_def view_details_click_def)
  show "\<exists>v. Modal True (Some candidate) = Some v \<and> modal_title v = filename candidate
        \<and> (\<forall>h t. (h, t) \<in> set (sections v) \<longleftrightarrow>
              t \<noteq> []
              \<and> (h = js ''Resume + Story + Personality'' \<and> rawText candidate = Some t
                 \<or> h = js ''Personality'' \<and> personality candidate = Some t
                 \<or> h = js ''Story'' \<and> story candidate = Some t))"
    by (auto simp add: Modal_def text_section_iff)
qed

theorem details_show_fetched_text_fields_witness:
  "snd (step (\<lambda>t. Inl OtherValue)
          (ViewDetails \<lparr>filename = js ''cv.txt'', score = 1 / 2, story = Some (js ''built it''),
                         personality = None, rawText = Some (js ''resume text'')\<rparr>)
          \<lparr>component = initial_state, timer_pending = False\<rparr>) = []
   \<and> Modal True (Some \<lparr>filename = js ''cv.txt'', score = 1 / 2, story = Some (js ''built it''),
                        personality = None, rawText = Some (js ''resume text'')\<rparr>)
       = Some \<lparr>modal_title = js ''cv.txt'',
                sections = [(js ''Resume + Story + Personality'', js ''resume text''),
                            (js ''Story'', js ''built it'')]\<rparr>"
  using details_show_fetched_text_fields
    [of "\<lambda>t. Inl OtherValue"
        "\<lparr>filename = js ''cv.txt'', score = 1 / 2, story = Some (js ''built it''),
          personality = None, rawText = Some (js ''resume text'')\<rparr>"
        "\<lparr>component = initial_state, timer_pending = False\<rparr>"]
  by (simp add: Modal_def text_section_def js_def)

text \<open>
  C6 as stated fails for a field that is present and empty: the result below has a
  story, the empty string, and the modal shows no section at all.
\<close>

theorem details_show_fetched_text_fields_counterexample:
  "story \<lparr>filename = js ''cv.txt'', score = 1 / 2, story = Some [], personality = None,
          rawText = None\<rparr> = Some []
   \<and> Modal True (Some \<lparr>filename = js ''cv.txt'', score = 1 / 2, story = Some [],
                        personality = None, rawText = None\<rparr>)
       = Some \<lparr>modal_title = js ''cv.txt'', sections = []\<rparr>"
  by (simp add: Modal_def text_section_def)

section \<open>A response without results\<close>

text \<open>
  C10, as the code has it. For a query that is not blank, an ok response whose parsed
  body is not \<open>null\<close> and has no \<open>results\<close> property, or a falsy one, counts as zero
  matches: the result list becomes empty, no error is set, and the interface shows
  an empty list of cards and no banner.
\<close>

theorem falsy_results_are_zero_matches:
  assumes "trim (query s) \<noteq> []"
    and "fetch (search_request (query s) (mode s)) = Inr resp"
    and "ok resp"
    and "response_text resp = Inr t"
    and "JSON_parse t = Inr data"
    and "data \<noteq> JNull"
    and "\<forall>props v. data = JObject props \<and> map_of props (js ''results'') = Some v \<longrightarrow> \<not> truthy v"
  shows "results (fst (searchResumes fetch JSON_parse s)) = JArray []
         \<and> error (fst (searchResumes fetch JSON_parse s)) = None
         \<and> (\<exists>v. render (fst (searchResumes fetch JSON_parse s)) = Some v
                \<and> main v = Cards [] \<and> error_banner v = None)"
proof -
  have "data_results data = Inr None \<or> (\<exists>v. data_results data = Inr (Some v) \<and> \<not> truthy v)"
    using assms(6,7) by (cases data) (auto simp add: domIff)
  then have "try_block fetch JSON_parse (search_request (query s) (mode s)) = Inr (JArray [])"
    using assms(2-5) by (auto simp add: try_block_parsed)
  from render_after_empty_success [OF assms(1) this] show ?thesis by simp
qed

theorem falsy_results_are_zero_matches_witness:
  "trim (query (initial_state\<lparr>query := js ''engineer''\<rparr>)) \<noteq> []
   \<and> results (fst (searchResumes
                 (\<lambda>r. Inr \<lparr>ok = True, status = 200, response_text = Inr (js ''{}'')\<rparr>)
                 (\<lambda>t. Inr (JObject []))
                 (initial_state\<lparr>query := js ''engineer'', results := JArray [JNull]\<rparr>)))
       = JArray []
   \<and> error (fst (searchResumes
                 (\<lambda>r. Inr \<lparr>ok = True, status = 200, response_text = Inr (js ''{}'')\<rparr>)
                 (\<lambda>t. Inr (JObject []))
                 (initial_state\<lparr>query := js ''engineer'', results := JArray [JNull]\<rparr>)))
       = None"
proof -
  let ?s = "initial_state\<lparr>query := js ''engineer'', results := JArray [JNull]\<rparr>"
  let ?resp = "\<lparr>ok = True, status = 200, response_text = Inr (js ''{}'')\<rparr>"
  have q: "trim (query ?s) \<noteq> []"
    by (simp add: trim_def js_def isWhiteSpace_def)
  have "results (fst (searchResumes (\<lambda>r. Inr ?resp) (\<lambda>t. Inr (JObject [])) ?s)) = JArray []
         \<and> error (fst (searchResumes (\<lambda>r. Inr ?resp) (\<lambda>t. Inr (JObject [])) ?s)) = None
         \<and> (\<exists>v. render (fst (searchResumes (\<lambda>r. Inr ?resp) (\<lambda>t. Inr (JObject [])) ?s)) = Some v
                \<and> main v = Cards [] \<and> error_banner v = None)"
    by (rule falsy_results_are_zero_matches [where resp = ?resp and t = "js ''{}''"
          and data = "JObject []"]) (use q in simp_all)
  with q show ?thesis by simp
qed

text \<open>
  C10 as stated fails for the body \<open>null\<close>, which has no \<open>results\<close> property: reading
  the property throws, and the error is set to the message of the exception.
\<close>

theorem falsy_results_are_zero_matches_counterexample:
  "error (fst (searchResumes
                 (\<lambda>r. Inr \<lparr>ok = True, status = 200, response_text = Inr (js ''null'')\<rparr>)
                 (\<lambda>t. Inr JNull)
                 (initial_state\<lparr>query := js ''engineer''\<rparr>)))
     = Some (js ''Cannot read properties of null (reading 'results')'')"
  by (simp add: searchResumes_def try_block_def Let_def initial_state_def trim_def js_def
      isWhiteSpace_def)

section \<open>Mode isolation in the search service\<close>

text \<open>
  C7. Every hit of a search on a named vector is a point of the collection that has
  that vector, scored by the similarity of the query vector to it; a point without the
  vector is no hit, whatever its other vectors are. So every record the search
  service returns for a query in personality mode comes from a point that has a
  personality vector.
\<close>

theorem personality_search_needs_personality_vector:
  "(\<forall>h\<in>set (store_search similarity points vname query_vector limit score_threshold).
      hit_point h \<in> set points
      \<and> (\<exists>v. named_vectors (hit_point h) vname = Some v
             \<and> hit_score h = similarity query_vector v))
   \<and> (\<forall>p\<in>set points. named_vectors p vname = None \<longrightarrow>
         p \<notin> hit_point ` set (store_search similarity points vname query_vector limit
                                  score_threshold))
   \<and> (search_service embed_text similarity top_k points query_text Personality = Inr rs \<longrightarrow>
        (\<exists>hits. rs = map assemble hits
           \<and> (\<forall>h\<in>set hits. hit_point h \<in> set points
                 \<and> named_vectors (hit_point h) personality_vector \<noteq> None)))"
proof (intro conjI impI ballI)
  fix h
  assume "h \<in> set (store_search similarity points vname query_vector limit score_threshold)"
  then have *: "hit_point h \<in> set points
         \<and> (\<exists>v. named_vectors (hit_point h) vname = Some v
                \<and> hit_score h = similarity query_vector v)"
    by (rule store_search_hit)
  from * show "hit_point h \<in> set points" by simp
  from * show "\<exists>v. named_vectors (hit_point h) vname = Some v
             \<and> hit_score h = similarity query_vector v" by simp
next
  fix p
  assume "p \<in> set points" and none: "named_vectors p vname = None"
  show "p \<notin> hit_point ` set (store_search similarity points vname query_vector limit
                                  score_threshold)"
  proof
    assume "p \<in> hit_point ` set (store_search similarity points vname query_vector limit
                                  score_threshold)"
    then obtain h where h: "h \<in> set (store_search similarity points vname query_vector limit
                                  score_threshold)" and p: "p = hit_point h"
      by blast
    from store_search_hit [OF h] none p show False by auto
  qed
next
  assume svc: "search_service embed_text similarity top_k points query_text Personality = Inr rs"
  show "\<exists>hits. rs = map assemble hits
           \<and> (\<forall>h\<in>set hits. hit_point h \<in> set points
                 \<and> named_vectors (hit_point h) personality_vector \<noteq> None)"
  proof (cases "blank query_text")
    case True
    with svc have "rs = map assemble []" by (simp add: search_service_def)
    then show ?thesis by (intro exI [of _ "[]"]) simp
  next
    case False
    with svc obtain qv where "embed_text query_text = Some qv"
      and rs: "rs = map assemble (store_search similarity points personality_vector qv top_k None)"
      by (auto simp add: search_service_def split: option.splits)
    have "\<forall>h\<in>set (store_search similarity points personality_vector qv top_k None).
            hit_point h \<in> set points \<and> named_vectors (hit_point h) personality_vector \<noteq> None"
      using store_search_hit [of _ similarity points personality_vector qv top_k None] by auto
    with rs show ?thesis by blast
  qed
qed

theorem personality_search_needs_personality_vector_witness:
  "search_service (\<lambda>t. Some [1, 0]) (\<lambda>q v. if q = v then 1 else 0) 10
     [\<lparr>point_id = ''bob.txt'',
       point_payload = \<lparr>payload_filename = ''bob.txt'', raw_text = ''ux design intern'',
                        story_text = None, personality_text = None\<rparr>,
       named_vectors = (\<lambda>n. if n = resume_vector then Some [1, 0] else None)\<rparr>,
      \<lparr>point_id = ''alice.txt'',
       point_payload = \<lparr>payload_filename = ''alice.txt'', raw_text = ''backend engineer'',
                        story_text = Some ''I built services'',
                        personality_text = Some ''calm''\<rparr>,
       named_vectors = (\<lambda>n. if n = personality_vector then Some [0, 1] else Some [1, 1])\<rparr>]
     ''calm'' Personality
   = Inr [\<lparr>api_filename = ''alice.txt'', api_score = 0, api_story = Some ''I built services'',
           api_personality = Some ''calm'', api_raw_text = Some ''backend engineer''\<rparr>]"
  using personality_search_needs_personality_vector
    [where embed_text = "\<lambda>t. Some [1, 0]" and similarity = "\<lambda>q v. if q = v then 1 else 0"
       and top_k = 10 and query_text = "''calm''" and vname = personality_vector
       and query_vector = "[1, 0]" and limit = 10 and score_threshold = None
       and points =
         "[\<lparr>point_id = ''bob.txt'',
            point_payload = \<lparr>payload_filename = ''bob.txt'', raw_text = ''ux design intern'',
                             story_text = None, personality_text = None\<rparr>,
            named_vectors = (\<lambda>n. if n = resume_vector then Some [1, 0] else None)\<rparr>,
           \<lparr>point_id = ''alice.txt'',
            point_payload = \<lparr>payload_filename = ''alice.txt'', raw_text = ''backend engineer'',
                             story_text = Some ''I built services'',
                             personality_text = Some ''calm''\<rparr>,
            named_vectors = (\<lambda>n. if n = personality_vector then Some [0, 1] else Some [1, 1])\<rparr>]"
       and rs = "[\<lparr>api_filename = ''alice.txt'', api_score = 0,
                   api_story = Some ''I built services'',
                   api_personality = Some ''calm'', api_raw_text = Some ''backend engineer''\<rparr>]"]
  by (simp add: search_service_def store_search_def score_point_def assemble_def blank_def
      List.map_filter_simps Let_def)

end
